theory Spec2Isabelle
  imports Complex_Main
begin

section \<open>External collaborators\<close>

text \<open>
  The language-model backends and the Chroma index are external. A backend object is one
  of three handles; invoking one either returns the text of the reply or raises. The
  outcome of a call may depend on everything that was called before it, so the oracle
  takes the history of calls, and every call is appended to that history. The history is
  the only instrumentation the model adds to the source: it records which collaborator
  was invoked, in which order.
\<close>

datatype llm = GoogleLLM | OpenAILLM | OllamaLLM

record document =
  page_content :: string
  metadata :: "string \<rightharpoonup> string"

datatype call = Invoke llm string | Search string

type_synonym history = "call list"

record backend =
  llm_invoke :: "history \<Rightarrow> llm \<Rightarrow> string \<Rightarrow> string option"
  chroma_search :: "history \<Rightarrow> string \<Rightarrow> document list option"

text \<open>\<open>llm.invoke([HumanMessage(content=prompt)])\<close>: \<open>None\<close> is a raised exception.\<close>

definition invoke :: "backend \<Rightarrow> llm \<Rightarrow> string \<Rightarrow> history \<Rightarrow> string option \<times> history" where
  "invoke B l prompt h = (llm_invoke B h l prompt, h @ [Invoke l prompt])"

section \<open>llm\_manager.py\<close>

text \<open>
  The part of \<open>Config\<close> the code reads (the module itself is not among the sources):
  the two API keys, tested for truthiness, and the confidence threshold.
\<close>

record config =
  GOOGLE_API_KEY :: "string option"
  OPENAI_API_KEY :: "string option"
  CONFIDENCE_THRESHOLD :: real

definition truthy :: "string option \<Rightarrow> bool" where
  "truthy k = (case k of None \<Rightarrow> False | Some s \<Rightarrow> s \<noteq> [])"

text \<open>Whether each backend constructor raises when \<open>initialize_llms\<close> calls it.\<close>

record constructors =
  google_raises :: bool
  openai_raises :: bool
  ollama_raises :: bool

record llm_manager =
  google_llm :: "llm option"
  openai_llm :: "llm option"
  ollama_llm :: "llm option"
  current_llm :: "llm option"

text \<open>Python's \<open>a or b\<close> on optional objects.\<close>

fun por :: "'a option \<Rightarrow> 'a option \<Rightarrow> 'a option" where
  "por (Some x) y = Some x"
| "por None y = y"

text \<open>\<open>LLMManager.__init__\<close> before it calls \<open>initialize_llms\<close>.\<close>

definition blank_manager :: llm_manager where
  "blank_manager = \<lparr>google_llm = None, openai_llm = None, ollama_llm = None, current_llm = None\<rparr>"

text \<open>
  \<open>initialize_llms\<close>. The Ollama constructor has a handler of its own; an exception of
  the Google or of the OpenAI constructor leaves the outer \<open>try\<close> at once and the
  handler sets \<open>current_llm = self.openai_llm or self.ollama_llm\<close>.
\<close>

definition initialize_llms :: "config \<Rightarrow> constructors \<Rightarrow> llm_manager \<Rightarrow> llm_manager" where
  "initialize_llms C K m =
     (if truthy (GOOGLE_API_KEY C) \<and> google_raises K
      then m\<lparr>current_llm := por (openai_llm m) (ollama_llm m)\<rparr>
      else
        let m1 = (if truthy (GOOGLE_API_KEY C) then m\<lparr>google_llm := Some GoogleLLM\<rparr> else m) in
        if truthy (OPENAI_API_KEY C) \<and> openai_raises K
        then m1\<lparr>current_llm := por (openai_llm m1) (ollama_llm m1)\<rparr>
        else
          let m2 = (if truthy (OPENAI_API_KEY C) then m1\<lparr>openai_llm := Some OpenAILLM\<rparr> else m1);
              m3 = (if ollama_raises K then m2\<lparr>ollama_llm := None\<rparr>
                    else m2\<lparr>ollama_llm := Some OllamaLLM\<rparr>)
          in m3\<lparr>current_llm := por (google_llm m3) (por (openai_llm m3) (ollama_llm m3))\<rparr>)"

definition LLMManager :: "config \<Rightarrow> constructors \<Rightarrow> llm_manager" where
  "LLMManager C K = initialize_llms C K blank_manager"

definition get_llm :: "llm_manager \<Rightarrow> string \<Rightarrow> llm option" where
  "get_llm m provider =
     (if provider = ''google'' \<and> google_llm m \<noteq> None then google_llm m
      else if provider = ''openai'' \<and> openai_llm m \<noteq> None then openai_llm m
      else if provider = ''ollama'' \<and> ollama_llm m \<noteq> None then ollama_llm m
      else if provider = ''auto'' then current_llm m
      else None)"

text \<open>The result dictionaries of \<open>generate_response\<close>: success with text and provider tag, or failure with an error.\<close>

datatype gen_result = Success string string | Failure string

definition fallback_providers :: "llm_manager \<Rightarrow> string \<Rightarrow> (string \<times> llm) list" where
  "fallback_providers m provider =
     (case google_llm m of Some l \<Rightarrow> (if provider \<noteq> ''google'' then [(''google'', l)] else []) | None \<Rightarrow> [])
     @ (case openai_llm m of Some l \<Rightarrow> (if provider \<noteq> ''openai'' then [(''openai'', l)] else []) | None \<Rightarrow> [])
     @ (case ollama_llm m of Some l \<Rightarrow> (if provider \<noteq> ''ollama'' then [(''ollama'', l)] else []) | None \<Rightarrow> [])"

text \<open>The loop over \<open>fallback_providers\<close>: the first success returns, an exception continues.\<close>

fun try_fallbacks :: "backend \<Rightarrow> string \<Rightarrow> (string \<times> llm) list \<Rightarrow> history \<Rightarrow> gen_result \<times> history" where
  "try_fallbacks B prompt [] h = (Failure ''All LLM providers failed'', h)"
| "try_fallbacks B prompt ((fallback_name, fallback_llm) # rest) h =
     (case invoke B fallback_llm prompt h of
        (Some content, h') \<Rightarrow> (Success content (''fallback-'' @ fallback_name), h')
      | (None, h') \<Rightarrow> try_fallbacks B prompt rest h')"

text \<open>
  \<open>generate_response\<close>. Inside the outer \<open>try\<close> only the two \<open>invoke\<close> calls can
  raise, and each has a handler of its own, so the outer handler has no branch here.
\<close>

definition generate_response ::
  "backend \<Rightarrow> llm_manager \<Rightarrow> string \<Rightarrow> string \<Rightarrow> history \<Rightarrow> gen_result \<times> history" where
  "generate_response B m prompt provider h =
     (case get_llm m provider of
        None \<Rightarrow> (Failure ''No LLM available'', h)
      | Some l \<Rightarrow>
          (case invoke B l prompt h of
             (Some content, h') \<Rightarrow>
               (Success content (if provider \<noteq> ''auto'' then provider else ''auto-selected''), h')
           | (None, h') \<Rightarrow> try_fallbacks B prompt (fallback_providers m provider) h'))"

section \<open>Strings\<close>

definition nl :: string where
  "nl = [CHR 0x0A]"

text \<open>\<open>sep.join(parts)\<close>.\<close>

fun join :: "string \<Rightarrow> string list \<Rightarrow> string" where
  "join sep [] = []"
| "join sep [x] = x"
| "join sep (x # y # ys) = x @ sep @ join sep (y # ys)"

text \<open>\<open>str(n)\<close> for the non-negative integer \<open>len(...)\<close>.\<close>

fun str_nat :: "nat \<Rightarrow> string" where
  "str_nat n = (if n < 10 then [char_of (48 + n)] else str_nat (n div 10) @ [char_of (48 + n mod 10)])"

text \<open>\<open>s.lower()\<close>, on the ASCII letters.\<close>

definition lower_char :: "char \<Rightarrow> char" where
  "lower_char c = (if (65::nat) \<le> of_char c \<and> of_char c \<le> (90::nat) then char_of (of_char c + (32::nat)) else c)"

definition lower :: "string \<Rightarrow> string" where
  "lower s = map lower_char s"

fun starts_with :: "string \<Rightarrow> string \<Rightarrow> bool" where
  "starts_with [] s = True"
| "starts_with (c # cs) [] = False"
| "starts_with (c # cs) (d # ds) = (c = d \<and> starts_with cs ds)"

text \<open>Python's \<open>sub in s\<close> on strings.\<close>

fun str_in :: "string \<Rightarrow> string \<Rightarrow> bool" where
  "str_in sub [] = (sub = [])"
| "str_in sub (c # cs) = (starts_with sub (c # cs) \<or> str_in sub cs)"

section \<open>The prompts of llm\_manager.py\<close>

definition medical_prompt :: "string \<Rightarrow> string \<Rightarrow> string" where
  "medical_prompt query context_str = join nl
     [''You are a medical AI assistant. Please provide a comprehensive, accurate, and evidence-based response to the following medical query.'',
      '''',
      ''Query: '' @ query,
      '''',
      ''Context from medical documents:'',
      context_str,
      '''',
      ''Please provide a detailed response that:'',
      ''1. Directly addresses the query'',
      ''2. References specific information from the provided context'',
      ''3. Maintains medical accuracy and professionalism'',
      ''4. Includes relevant source citations where possible'',
      '''',
      ''Response:'']"

definition generate_medical_response ::
  "backend \<Rightarrow> llm_manager \<Rightarrow> string \<Rightarrow> string \<Rightarrow> history \<Rightarrow> gen_result \<times> history" where
  "generate_medical_response B m query context_str h =
     generate_response B m (medical_prompt query context_str) ''auto'' h"

definition evaluation_prompt :: "string \<Rightarrow> string \<Rightarrow> string \<Rightarrow> string" where
  "evaluation_prompt query response context_str = join nl
     [''Evaluate the quality of this medical AI response:'',
      '''',
      ''Query: '' @ query,
      '''',
      ''Response: '' @ response,
      '''',
      ''Context used: '' @ context_str,
      '''',
      ''Rate the response on:'',
      ''1. Relevance to the query (0-10)'',
      ''2. Accuracy of medical information (0-10)'',
      ''3. Use of provided context (0-10)'',
      ''4. Overall helpfulness (0-10)'',
      '''',
      ''Provide a brief assessment and overall score (0-10):'']"

text \<open>
  The result of \<open>evaluate_response_quality\<close>: the dictionary with the key
  \<open>evaluation\<close>, or the failed result of \<open>generate_response\<close> as it is.
\<close>

datatype eval_result = Evaluated string | NotEvaluated string

definition evaluate_response_quality ::
  "backend \<Rightarrow> llm_manager \<Rightarrow> string \<Rightarrow> string \<Rightarrow> string \<Rightarrow> history \<Rightarrow> eval_result \<times> history" where
  "evaluate_response_quality B m query response context_str h =
     (case generate_response B m (evaluation_prompt query response context_str) ''auto'' h of
        (Success content tag, h') \<Rightarrow> (Evaluated content, h')
      | (Failure e, h') \<Rightarrow> (NotEvaluated e, h'))"

section \<open>vector\_store.py\<close>

text \<open>
  \<open>VectorStore.vector_store\<close> is \<open>None\<close> until an index was created or loaded.
  \<open>similarity_search\<close> raises \<open>ValueError\<close> on an index that is not there
  (\<open>Inl\<close>, the message), and turns an exception of Chroma into the empty list.
\<close>

record vector_store =
  store_loaded :: bool

definition similarity_search ::
  "backend \<Rightarrow> vector_store \<Rightarrow> string \<Rightarrow> history \<Rightarrow> (string + document list) \<times> history" where
  "similarity_search B vs query h =
     (if \<not> store_loaded vs then (Inl ''Vector store not initialized'', h)
      else (case chroma_search B h query of
              Some results \<Rightarrow> (Inr results, h @ [Search query])
            | None \<Rightarrow> (Inr [], h @ [Search query])))"

section \<open>rag\_agent.py\<close>

text \<open>
  \<open>AgentState\<close>. The field \<open>context\<close> is named \<open>context_str\<close> here, the
  confidence is a real number, and the values of the \<open>evaluation\<close> dictionary are the
  texts the stages store in it.
\<close>

record agent_state =
  query :: string
  retrieved_documents :: "document list"
  context_str :: string
  response :: string
  confidence :: real
  sources :: "string list"
  evaluation :: "string \<rightharpoonup> string"
  error :: string
  step :: string
  improvement_count :: int

text \<open>\<open>AgentState(query=query)\<close>: every other field has its default.\<close>

definition AgentState :: "string \<Rightarrow> agent_state" where
  "AgentState q =
     \<lparr>query = q, retrieved_documents = [], context_str = [], response = [], confidence = 0,
      sources = [], evaluation = Map.empty, error = [], step = ''start'', improvement_count = 0\<rparr>"

text \<open>
  \<open>RAGAgent\<close>: its own vector store and LLM manager. The compiled workflow is the fixed
  graph of \<open>_build_workflow\<close>. The graph engine is a library and not among the sources;
  three things about it are parameters of the agent: whether \<open>invoke\<close> hands the final
  state back as a dictionary or as an object, since \<open>process_query\<close> reads the two
  differently; the number of nodes the engine runs before it gives up on a run that has
  not reached \<open>END\<close> (its recursion limit); and the text of the exception it raises
  then.
\<close>

record rag_agent =
  agent_vector_store :: vector_store
  agent_llm_manager :: llm_manager
  workflow_returns_dict :: bool
  workflow_recursion_limit :: nat
  workflow_recursion_error :: string

text \<open>\<open>doc.metadata.get(key, 'unknown')\<close>.\<close>

definition metadata_get :: "document \<Rightarrow> string \<Rightarrow> string" where
  "metadata_get doc key = (case metadata doc key of Some v \<Rightarrow> v | None \<Rightarrow> ''unknown'')"

definition context_part :: "document \<Rightarrow> string" where
  "context_part doc =
     ''Source: '' @ metadata_get doc ''source'' @ '' (Chunk '' @ metadata_get doc ''chunk_id'' @ '')''
       @ nl @ page_content doc @ nl"

definition retrieve_documents ::
  "backend \<Rightarrow> rag_agent \<Rightarrow> agent_state \<Rightarrow> history \<Rightarrow> agent_state \<times> history" where
  "retrieve_documents B A s h =
     (let s1 = s\<lparr>step := ''retrieve''\<rparr> in
      case similarity_search B (agent_vector_store A) (query s1) h of
        (Inl e, h') \<Rightarrow> (s1\<lparr>error := ''Error in document retrieval: '' @ e\<rparr>, h')
      | (Inr documents, h') \<Rightarrow>
          if documents = [] then (s1\<lparr>error := ''No relevant documents found''\<rparr>, h')
          else (s1\<lparr>retrieved_documents := documents,
                    sources := map (\<lambda>doc. metadata_get doc ''source'') documents,
                    context_str := join nl (map context_part documents)\<rparr>, h'))"

definition analysis_prompt :: "agent_state \<Rightarrow> string" where
  "analysis_prompt s = join nl
     [''Analyze this medical query and determine:'',
      ''1. Query type (factual, analytical, comparative, etc.)'',
      ''2. Required information depth'',
      ''3. Potential challenges or ambiguities'',
      ''4. Recommended approach for response generation'',
      '''',
      ''Query: '' @ query s,
      '''',
      ''Context available: '' @ str_nat (length (retrieved_documents s)) @ '' document chunks'',
      '''',
      ''Provide a brief analysis:'']"

definition analyze_query ::
  "backend \<Rightarrow> rag_agent \<Rightarrow> agent_state \<Rightarrow> history \<Rightarrow> agent_state \<times> history" where
  "analyze_query B A s h =
     (let s1 = s\<lparr>step := ''analyze''\<rparr> in
      case generate_response B (agent_llm_manager A) (analysis_prompt s1) ''auto'' h of
        (Success content tag, h') \<Rightarrow>
          (s1\<lparr>evaluation := (evaluation s1)(''query_analysis'' \<mapsto> content)\<rparr>, h')
      | (Failure e, h') \<Rightarrow> (s1, h'))"

text \<open>The node \<open>_generate_response\<close> of the agent.\<close>

definition agent_generate_response ::
  "backend \<Rightarrow> rag_agent \<Rightarrow> agent_state \<Rightarrow> history \<Rightarrow> agent_state \<times> history" where
  "agent_generate_response B A s h =
     (let s1 = s\<lparr>step := ''generate''\<rparr> in
      if context_str s1 = [] then (s1\<lparr>error := ''No context available for response generation''\<rparr>, h)
      else
        case generate_medical_response B (agent_llm_manager A) (query s1) (context_str s1) h of
          (Success content tag, h') \<Rightarrow> (s1\<lparr>response := content, confidence := 0.8\<rparr>, h')
        | (Failure e, h') \<Rightarrow> (s1\<lparr>error := ''Response generation failed: '' @ e\<rparr>, h'))"

text \<open>The keyword policy of \<open>_evaluate_response\<close>, on the assessment text.\<close>

definition keyword_confidence :: "string \<Rightarrow> real" where
  "keyword_confidence assessment =
     (if str_in ''confidence'' (lower assessment) then 0.9
      else if str_in ''good'' (lower assessment) then 0.8
      else if str_in ''adequate'' (lower assessment) then 0.6
      else 0.5)"

definition evaluate_response ::
  "backend \<Rightarrow> rag_agent \<Rightarrow> agent_state \<Rightarrow> history \<Rightarrow> agent_state \<times> history" where
  "evaluate_response B A s h =
     (let s1 = s\<lparr>step := ''evaluate''\<rparr> in
      if response s1 = [] then (s1\<lparr>error := ''No response to evaluate''\<rparr>, h)
      else
        case evaluate_response_quality B (agent_llm_manager A) (query s1) (response s1) (context_str s1) h of
          (Evaluated assessment, h') \<Rightarrow>
            (s1\<lparr>evaluation := (evaluation s1)(''quality_assessment'' \<mapsto> assessment),
                confidence := keyword_confidence assessment\<rparr>, h')
        | (NotEvaluated e, h') \<Rightarrow> (s1\<lparr>confidence := 0.5\<rparr>, h'))"

text \<open>
  \<open>_should_improve\<close>: the branch decision. It is the one place that writes
  \<open>improvement_count\<close> (\<open>state.improvement_count += 1\<close>, on the state object it is
  given) and it returns the name of the edge, nothing else. The pair below is that name
  and the state object as the function leaves it.
\<close>

definition should_improve :: "config \<Rightarrow> agent_state \<Rightarrow> string \<times> agent_state" where
  "should_improve C s =
     (if improvement_count s \<ge> 3 then (''end'', s)
      else if confidence s < CONFIDENCE_THRESHOLD C
        then (''improve'', s\<lparr>improvement_count := improvement_count s + 1\<rparr>)
        else (''end'', s))"

definition improvement_prompt :: "agent_state \<Rightarrow> string" where
  "improvement_prompt s = join nl
     [''The previous response to this query received a low confidence score.'',
      ''Please improve the response by addressing any identified issues.'',
      '''',
      ''Original Query: '' @ query s,
      '''',
      ''Previous Response: '' @ response s,
      '''',
      ''Evaluation Feedback: '' @
         (case evaluation s ''quality_assessment'' of
            Some v \<Rightarrow> v | None \<Rightarrow> ''No specific feedback available''),
      '''',
      ''Context: '' @ context_str s,
      '''',
      ''Please provide an improved, more accurate, and comprehensive response:'']"

definition improve_response ::
  "backend \<Rightarrow> rag_agent \<Rightarrow> agent_state \<Rightarrow> history \<Rightarrow> agent_state \<times> history" where
  "improve_response B A s h =
     (let s1 = s\<lparr>step := ''improve''\<rparr> in
      case generate_response B (agent_llm_manager A) (improvement_prompt s1) ''auto'' h of
        (Success content tag, h') \<Rightarrow>
          (s1\<lparr>response := content, confidence := min 0.95 (confidence s1 + 0.1)\<rparr>, h')
      | (Failure e, h') \<Rightarrow> (s1, h'))"

subsection \<open>The workflow graph\<close>

text \<open>
  \<open>_build_workflow\<close>: the entry point is \<open>retrieve\<close>; the edges are
  retrieve to analyze, analyze to generate, generate to evaluate, improve to evaluate, and
  the conditional edge after evaluate, which maps the answer \<open>improve\<close> of
  \<open>_should_improve\<close> to the node improve and the answer \<open>end\<close> to \<open>END\<close>.
  A configuration is the node to run next, the state and the history of calls.

  A node returns the state, and the state it returns is what the next node is given.
  The branch decision is registered as the router of the conditional edge: the graph
  takes the edge name it returns, and nothing in the sources hands the write it made on
  its argument to the next node. So after evaluate the run goes on with the state that
  evaluate returned.
\<close>

datatype node = Retrieve | Analyze | Generate | Evaluate | Improve | END

fun workflow_step ::
  "config \<Rightarrow> backend \<Rightarrow> rag_agent \<Rightarrow> node \<times> agent_state \<times> history \<Rightarrow> node \<times> agent_state \<times> history" where
  "workflow_step C B A (Retrieve, s, h) = (Analyze, retrieve_documents B A s h)"
| "workflow_step C B A (Analyze, s, h) = (Generate, analyze_query B A s h)"
| "workflow_step C B A (Generate, s, h) = (Evaluate, agent_generate_response B A s h)"
| "workflow_step C B A (Evaluate, s, h) =
     (case evaluate_response B A s h of
        (s', h') \<Rightarrow> (if fst (should_improve C s') = ''improve'' then Improve else END, s', h'))"
| "workflow_step C B A (Improve, s, h) = (Evaluate, improve_response B A s h)"
| "workflow_step C B A (END, s, h) = (END, s, h)"

text \<open>The configuration after \<open>n\<close> nodes of a run.\<close>

definition run_steps ::
  "config \<Rightarrow> backend \<Rightarrow> rag_agent \<Rightarrow> nat \<Rightarrow> node \<times> agent_state \<times> history \<Rightarrow> node \<times> agent_state \<times> history" where
  "run_steps C B A n cfg = (workflow_step C B A ^^ n) cfg"

text \<open>
  Running the graph: nodes are executed until \<open>END\<close> is the node to run next. The
  engine counts the nodes; when the count is used up and the run has not reached
  \<open>END\<close> it raises (\<open>Inl\<close>, the text of the exception).
\<close>

fun run_workflow ::
  "config \<Rightarrow> backend \<Rightarrow> rag_agent \<Rightarrow> nat \<Rightarrow> node \<times> agent_state \<times> history \<Rightarrow> (string + agent_state) \<times> history" where
  "run_workflow C B A 0 (n, s, h) =
     (if n = END then (Inr s, h) else (Inl (workflow_recursion_error A), h))"
| "run_workflow C B A (Suc k) (n, s, h) =
     (if n = END then (Inr s, h) else run_workflow C B A k (workflow_step C B A (n, s, h)))"

text \<open>\<open>self.workflow.invoke(initial_state)\<close>: the run from the entry point.\<close>

definition workflow_invoke ::
  "config \<Rightarrow> backend \<Rightarrow> rag_agent \<Rightarrow> agent_state \<Rightarrow> history \<Rightarrow> (string + agent_state) \<times> history" where
  "workflow_invoke C B A s h = run_workflow C B A (workflow_recursion_limit A) (Retrieve, s, h)"

subsection \<open>The result of a query\<close>

text \<open>The values of the result dictionaries, which are maps from keys to values.\<close>

datatype pyval =
  PyNone
| PyBool bool
| PyStr string
| PyFloat real
| PyList "string list"
| PyDict "string \<rightharpoonup> string"

text \<open>
  The dictionary \<open>process_query\<close> builds from the final state. Read as a dictionary, an
  empty \<open>response\<close> becomes \<open>None\<close> (\<open>get("response") or get("answer") or get("output")\<close>,
  the last two keys not being fields of the state); read as an object, it stays the
  empty string.
\<close>

definition completed_result :: "rag_agent \<Rightarrow> string \<Rightarrow> agent_state \<Rightarrow> string \<rightharpoonup> pyval" where
  "completed_result A q final_state =
     [''success'' \<mapsto> PyBool True,
      ''query'' \<mapsto> PyStr q,
      ''response'' \<mapsto>
         (if workflow_returns_dict A \<and> response final_state = [] then PyNone
          else PyStr (response final_state)),
      ''confidence'' \<mapsto> PyFloat (confidence final_state),
      ''sources'' \<mapsto> PyList (sources final_state),
      ''evaluation'' \<mapsto> PyDict (evaluation final_state),
      ''workflow_steps'' \<mapsto> PyStr (step final_state),
      ''error'' \<mapsto> PyStr (error final_state)]"

text \<open>The dictionary of the handler of \<open>process_query\<close>, \<open>e\<close> being \<open>str(e)\<close>.\<close>

definition fault_result :: "string \<Rightarrow> string \<Rightarrow> string \<rightharpoonup> pyval" where
  "fault_result q e =
     [''success'' \<mapsto> PyBool False,
      ''query'' \<mapsto> PyStr q,
      ''error'' \<mapsto> PyStr e,
      ''response'' \<mapsto> PyNone,
      ''confidence'' \<mapsto> PyFloat 0,
      ''sources'' \<mapsto> PyList [],
      ''evaluation'' \<mapsto> PyDict Map.empty,
      ''workflow_steps'' \<mapsto> PyStr ''N/A'']"

text \<open>\<open>RAGAgent.process_query\<close>.\<close>

definition agent_process_query ::
  "config \<Rightarrow> backend \<Rightarrow> rag_agent \<Rightarrow> string \<Rightarrow> history \<Rightarrow> (string \<rightharpoonup> pyval) \<times> history" where
  "agent_process_query C B A q h =
     (case workflow_invoke C B A (AgentState q) h of
        (Inr final_state, h') \<Rightarrow> (completed_result A q final_state, h')
      | (Inl e, h') \<Rightarrow> (fault_result q e, h'))"

section \<open>system\_manager.py\<close>

record system_manager =
  rag_agent :: "rag_agent option"
  is_initialized :: bool
  documents_processed :: bool

text \<open>\<open>SystemManager.__init__\<close>.\<close>

definition SystemManager :: system_manager where
  "SystemManager = \<lparr>rag_agent = None, is_initialized = False, documents_processed = False\<rparr>"

text \<open>The \<open>AttributeError\<close> of \<open>self.rag_agent.process_query\<close> on \<open>None\<close>, as \<open>str(e)\<close>.\<close>

definition no_agent_error :: string where
  "no_agent_error =
     [CHR 0x27] @ ''NoneType'' @ [CHR 0x27] @ '' object has no attribute ''
       @ [CHR 0x27] @ ''process_query'' @ [CHR 0x27]"

text \<open>\<open>SystemManager.process_query\<close>.\<close>

definition process_query ::
  "config \<Rightarrow> backend \<Rightarrow> system_manager \<Rightarrow> string \<Rightarrow> history \<Rightarrow> (string \<rightharpoonup> pyval) \<times> history" where
  "process_query C B M q h =
     (if \<not> is_initialized M
      then ([''success'' \<mapsto> PyBool False,
             ''error'' \<mapsto> PyStr ''System not initialized'',
             ''message'' \<mapsto> PyStr ''Please initialize the system first''], h)
      else
        case rag_agent M of
          Some A \<Rightarrow> agent_process_query C B A q h
        | None \<Rightarrow>
            ([''success'' \<mapsto> PyBool False,
              ''query'' \<mapsto> PyStr q,
              ''error'' \<mapsto> PyStr no_agent_error,
              ''message'' \<mapsto> PyStr ''Query processing failed''], h))"

section \<open>Notions used to state the properties\<close>

text \<open>
  The history when the \<open>k\<close>-th fallback is tried: every fallback before it was
  invoked once, in the order of the list, and failed.
\<close>

definition attempt_history :: "history \<Rightarrow> string \<Rightarrow> (string \<times> llm) list \<Rightarrow> nat \<Rightarrow> history" where
  "attempt_history h prompt fallbacks k = h @ map (\<lambda>(fallback_name, fallback_llm). Invoke fallback_llm prompt) (take k fallbacks)"


subsection \<open>Concrete configurations and backends\<close>

definition both_keys :: config where
  "both_keys = \<lparr>GOOGLE_API_KEY = Some ''g-key'', OPENAI_API_KEY = Some ''o-key'', CONFIDENCE_THRESHOLD = 0.7\<rparr>"

definition google_key_only :: config where
  "google_key_only = \<lparr>GOOGLE_API_KEY = Some ''g-key'', OPENAI_API_KEY = None, CONFIDENCE_THRESHOLD = 0.7\<rparr>"

definition all_constructed :: constructors where
  "all_constructed = \<lparr>google_raises = False, openai_raises = False, ollama_raises = False\<rparr>"

definition no_ollama :: constructors where
  "no_ollama = \<lparr>google_raises = False, openai_raises = False, ollama_raises = True\<rparr>"

definition openai_constructor_raises :: constructors where
  "openai_constructor_raises = \<lparr>google_raises = False, openai_raises = True, ollama_raises = False\<rparr>"

definition never_answers :: backend where
  "never_answers = \<lparr>llm_invoke = (\<lambda>h l prompt. None), chroma_search = (\<lambda>h q. Some [])\<rparr>"

definition only_openai_answers :: backend where
  "only_openai_answers =
     \<lparr>llm_invoke = (\<lambda>h l prompt. if l = OpenAILLM then Some ''ok'' else None),
      chroma_search = (\<lambda>h q. Some [])\<rparr>"


definition always_answers :: backend where
  "always_answers = \<lparr>llm_invoke = (\<lambda>h l prompt. Some ''ok''), chroma_search = (\<lambda>h q. Some [])\<rparr>"


definition loaded_agent :: rag_agent where
  "loaded_agent =
     \<lparr>agent_vector_store = \<lparr>store_loaded = True\<rparr>,
      agent_llm_manager = LLMManager both_keys all_constructed,
      workflow_returns_dict = True,
      workflow_recursion_limit = 25,
      workflow_recursion_error = ''Recursion limit of 25 reached without hitting a stop condition.''\<rparr>"

definition praising :: backend where
  "praising = \<lparr>llm_invoke = (\<lambda>h l prompt. Some ''Good, adequate answer''), chroma_search = (\<lambda>h q. Some [])\<rparr>"

definition answered :: agent_state where
  "answered = (AgentState ''What is aspirin?'')\<lparr>response := ''Aspirin is an analgesic.'', confidence := 0.3\<rparr>"

definition ready_manager :: system_manager where
  "ready_manager = \<lparr>rag_agent = Some loaded_agent, is_initialized = True, documents_processed = True\<rparr>"

section \<open>The fallback-aware generator\<close>

lemma attempt_history_0 [simp]: "attempt_history h prompt fbs 0 = h"
  by (simp add: attempt_history_def)

lemma attempt_history_Cons:
  "attempt_history h prompt ((name, l) # fbs) (Suc k) = attempt_history (h @ [Invoke l prompt]) prompt fbs k"
  by (simp add: attempt_history_def)

lemma try_fallbacks_first_success:
  "k < length fbs \<Longrightarrow>
   \<forall>j<k. llm_invoke B (attempt_history h prompt fbs j) (snd (fbs ! j)) prompt = None \<Longrightarrow>
   llm_invoke B (attempt_history h prompt fbs k) (snd (fbs ! k)) prompt = Some content \<Longrightarrow>
   try_fallbacks B prompt fbs h =
     (Success content (''fallback-'' @ fst (fbs ! k)), attempt_history h prompt fbs (Suc k))"
proof (induction fbs arbitrary: h k)
  case Nil
  then show ?case by simp
next
  case (Cons fb fbs)
  obtain name l where fb: "fb = (name, l)" by (cases fb) auto
  show ?case
  proof (cases k)
    case 0
    with Cons.prems fb show ?thesis
      by (simp add: invoke_def attempt_history_def)
  next
    case (Suc k')
    from Cons.prems(2) have first: "llm_invoke B h l prompt = None"
      using Suc fb by (auto dest: spec[of _ 0])
    have rest: "\<forall>j<k'. llm_invoke B (attempt_history (h @ [Invoke l prompt]) prompt fbs j) (snd (fbs ! j)) prompt = None"
    proof (intro allI impI)
      fix j assume "j < k'"
      then have "Suc j < k" using Suc by simp
      with Cons.prems(2) have "llm_invoke B (attempt_history h prompt (fb # fbs) (Suc j)) (snd ((fb # fbs) ! Suc j)) prompt = None"
        by blast
      then show "llm_invoke B (attempt_history (h @ [Invoke l prompt]) prompt fbs j) (snd (fbs ! j)) prompt = None"
        by (simp add: fb attempt_history_Cons)
    qed
    have here: "llm_invoke B (attempt_history (h @ [Invoke l prompt]) prompt fbs k') (snd (fbs ! k')) prompt = Some content"
      using Cons.prems(3) Suc by (simp add: fb attempt_history_Cons)
    have "k' < length fbs" using Cons.prems(1) Suc by simp
    from Cons.IH[OF this rest here] show ?thesis
      using first Suc by (simp add: fb invoke_def attempt_history_Cons)
  qed
qed

lemma try_fallbacks_all_fail:
  "\<forall>j<length fbs. llm_invoke B (attempt_history h prompt fbs j) (snd (fbs ! j)) prompt = None \<Longrightarrow>
   try_fallbacks B prompt fbs h =
     (Failure ''All LLM providers failed'', attempt_history h prompt fbs (length fbs))"
proof (induction fbs arbitrary: h)
  case Nil
  then show ?case by (simp add: attempt_history_def)
next
  case (Cons fb fbs)
  obtain name l where fb: "fb = (name, l)" by (cases fb) auto
  from Cons.prems have first: "llm_invoke B h l prompt = None"
    using fb by (auto dest: spec[of _ 0])
  have rest: "\<forall>j<length fbs. llm_invoke B (attempt_history (h @ [Invoke l prompt]) prompt fbs j) (snd (fbs ! j)) prompt = None"
  proof (intro allI impI)
    fix j assume "j < length fbs"
    then have "Suc j < length (fb # fbs)" by simp
    with Cons.prems have "llm_invoke B (attempt_history h prompt (fb # fbs) (Suc j)) (snd ((fb # fbs) ! Suc j)) prompt = None"
      by blast
    then show "llm_invoke B (attempt_history (h @ [Invoke l prompt]) prompt fbs j) (snd (fbs ! j)) prompt = None"
      by (simp add: fb attempt_history_Cons)
  qed
  from Cons.IH[OF rest] show ?case
    using first by (simp add: fb invoke_def attempt_history_Cons)
qed

lemma try_fallbacks_failure_only_if:
  "fst (try_fallbacks B prompt fbs h) = Failure e \<Longrightarrow>
   e = ''All LLM providers failed'' \<and>
   (\<forall>j<length fbs. llm_invoke B (attempt_history h prompt fbs j) (snd (fbs ! j)) prompt = None)"
proof (induction fbs arbitrary: h)
  case Nil
  then show ?case by simp
next
  case (Cons fb fbs)
  obtain name l where fb: "fb = (name, l)" by (cases fb) auto
  from Cons.prems have first: "llm_invoke B h l prompt = None"
    by (cases "llm_invoke B h l prompt") (auto simp: fb invoke_def)
  with Cons.prems have "fst (try_fallbacks B prompt fbs (h @ [Invoke l prompt])) = Failure e"
    by (simp add: fb invoke_def)
  from Cons.IH[OF this] have e: "e = ''All LLM providers failed''"
    and rest: "\<forall>j<length fbs. llm_invoke B (attempt_history (h @ [Invoke l prompt]) prompt fbs j) (snd (fbs ! j)) prompt = None"
    by auto
  have "llm_invoke B (attempt_history h prompt (fb # fbs) j) (snd ((fb # fbs) ! j)) prompt = None"
    if "j < length (fb # fbs)" for j
  proof (cases j)
    case 0
    then show ?thesis using first by (simp add: fb)
  next
    case (Suc j')
    then show ?thesis using rest that by (simp add: fb attempt_history_Cons)
  qed
  with e show ?case by blast
qed

text \<open>
  C4. Once the selector resolves to a provider: if that provider answers, its answer is
  returned at once, tagged with the selector (\<open>auto-selected\<close> for \<open>auto\<close>),
  and it is the only backend invoked. If it raises, the fallbacks are invoked in the
  order of the fallback list; the first one that answers is returned, tagged
  \<open>fallback-\<close> and its name, and no later one is invoked. If every fallback
  raises as well, the result is the failure \<open>All LLM providers failed\<close>. A failed
  result of a resolved selector is that failure, and it is returned only when the
  primary and every fallback raised.
\<close>

theorem generate_response_outcomes:
  assumes "get_llm m provider = Some l"
  shows
    "(let fallbacks = fallback_providers m provider; h1 = h @ [Invoke l prompt] in
      (llm_invoke B h l prompt = Some content \<longrightarrow>
         generate_response B m prompt provider h =
           (Success content (if provider \<noteq> ''auto'' then provider else ''auto-selected''), h1))
      \<and> (llm_invoke B h l prompt = None \<longrightarrow>
           (\<forall>k<length fallbacks.
              (\<forall>j<k. llm_invoke B (attempt_history h1 prompt fallbacks j) (snd (fallbacks ! j)) prompt = None) \<longrightarrow>
              llm_invoke B (attempt_history h1 prompt fallbacks k) (snd (fallbacks ! k)) prompt = Some content \<longrightarrow>
              generate_response B m prompt provider h =
                (Success content (''fallback-'' @ fst (fallbacks ! k)), attempt_history h1 prompt fallbacks (Suc k)))
           \<and> ((\<forall>j<length fallbacks.
                  llm_invoke B (attempt_history h1 prompt fallbacks j) (snd (fallbacks ! j)) prompt = None) \<longrightarrow>
                generate_response B m prompt provider h =
                  (Failure ''All LLM providers failed'', attempt_history h1 prompt fallbacks (length fallbacks))))
      \<and> (\<forall>e. fst (generate_response B m prompt provider h) = Failure e \<longrightarrow>
             e = ''All LLM providers failed'' \<and> llm_invoke B h l prompt = None \<and>
             (\<forall>j<length fallbacks.
                llm_invoke B (attempt_history h1 prompt fallbacks j) (snd (fallbacks ! j)) prompt = None)))"
proof -
  define fallbacks where "fallbacks = fallback_providers m provider"
  define h1 where "h1 = h @ [Invoke l prompt]"
  have primary: "generate_response B m prompt provider h =
      (Success c (if provider \<noteq> ''auto'' then provider else ''auto-selected''), h1)"
    if "llm_invoke B h l prompt = Some c" for c
    using that assms by (simp add: generate_response_def invoke_def h1_def)
  have after: "generate_response B m prompt provider h = try_fallbacks B prompt fallbacks h1"
    if "llm_invoke B h l prompt = None"
    using that assms by (simp add: generate_response_def invoke_def h1_def fallbacks_def)
  have first: "generate_response B m prompt provider h =
      (Success content (''fallback-'' @ fst (fallbacks ! k)), attempt_history h1 prompt fallbacks (Suc k))"
    if "llm_invoke B h l prompt = None" "k < length fallbacks"
      "\<forall>j<k. llm_invoke B (attempt_history h1 prompt fallbacks j) (snd (fallbacks ! j)) prompt = None"
      "llm_invoke B (attempt_history h1 prompt fallbacks k) (snd (fallbacks ! k)) prompt = Some content"
    for k
    using after[OF that(1)] try_fallbacks_first_success[OF that(2) that(3) that(4)] by simp
  have none: "generate_response B m prompt provider h =
      (Failure ''All LLM providers failed'', attempt_history h1 prompt fallbacks (length fallbacks))"
    if "llm_invoke B h l prompt = None"
      "\<forall>j<length fallbacks. llm_invoke B (attempt_history h1 prompt fallbacks j) (snd (fallbacks ! j)) prompt = None"
    using after[OF that(1)] try_fallbacks_all_fail[OF that(2)] by simp
  have only: "e = ''All LLM providers failed'' \<and> llm_invoke B h l prompt = None \<and>
      (\<forall>j<length fallbacks. llm_invoke B (attempt_history h1 prompt fallbacks j) (snd (fallbacks ! j)) prompt = None)"
    if failed: "fst (generate_response B m prompt provider h) = Failure e" for e
  proof -
    have p: "llm_invoke B h l prompt = None"
    proof (cases "llm_invoke B h l prompt")
      case None
      then show ?thesis .
    next
      case (Some c)
      from primary[OF this] failed show ?thesis by simp
    qed
    from failed after[OF p] have "fst (try_fallbacks B prompt fallbacks h1) = Failure e"
      by simp
    from try_fallbacks_failure_only_if[OF this] p show ?thesis
      by simp
  qed
  show ?thesis
    unfolding Let_def fallbacks_def[symmetric] h1_def[symmetric]
  proof (intro conjI impI allI)
    assume "llm_invoke B h l prompt = Some content"
    then show "generate_response B m prompt provider h =
      (Success content (if provider \<noteq> ''auto'' then provider else ''auto-selected''), h1)"
      by (rule primary)
  next
    fix k
    assume "llm_invoke B h l prompt = None" "k < length fallbacks"
      "\<forall>j<k. llm_invoke B (attempt_history h1 prompt fallbacks j) (snd (fallbacks ! j)) prompt = None"
      "llm_invoke B (attempt_history h1 prompt fallbacks k) (snd (fallbacks ! k)) prompt = Some content"
    then show "generate_response B m prompt provider h =
      (Success content (''fallback-'' @ fst (fallbacks ! k)), attempt_history h1 prompt fallbacks (Suc k))"
      by (rule first)
  next
    assume "llm_invoke B h l prompt = None"
      "\<forall>j<length fallbacks. llm_invoke B (attempt_history h1 prompt fallbacks j) (snd (fallbacks ! j)) prompt = None"
    then show "generate_response B m prompt provider h =
      (Failure ''All LLM providers failed'', attempt_history h1 prompt fallbacks (length fallbacks))"
      by (rule none)
  next
    fix e
    assume "fst (generate_response B m prompt provider h) = Failure e"
    from only[OF this] show "e = ''All LLM providers failed''"
      by (rule conjunct1)
  next
    fix e
    assume "fst (generate_response B m prompt provider h) = Failure e"
    from only[OF this] show "llm_invoke B h l prompt = None"
      by (elim conjE)
  next
    fix e j
    assume "fst (generate_response B m prompt provider h) = Failure e" and j: "j < length fallbacks"
    from only[OF this(1)] have "\<forall>j<length fallbacks.
        llm_invoke B (attempt_history h1 prompt fallbacks j) (snd (fallbacks ! j)) prompt = None"
      by (elim conjE)
    with j show "llm_invoke B (attempt_history h1 prompt fallbacks j) (snd (fallbacks ! j)) prompt = None"
      by (elim allE impE)
  qed
qed

lemma manager_both_keys:
  "LLMManager both_keys all_constructed =
     \<lparr>google_llm = Some GoogleLLM, openai_llm = Some OpenAILLM, ollama_llm = Some OllamaLLM,
      current_llm = Some GoogleLLM\<rparr>"
  by (simp add: LLMManager_def initialize_llms_def blank_manager_def both_keys_def
      all_constructed_def truthy_def)

theorem generate_response_outcomes_witness:
  "get_llm (LLMManager both_keys all_constructed) ''google'' = Some GoogleLLM
   \<and> generate_response only_openai_answers (LLMManager both_keys all_constructed) ''Hello'' ''google'' []
      = (Success ''ok'' ''fallback-openai'', [Invoke GoogleLLM ''Hello'', Invoke OpenAILLM ''Hello''])"
proof -
  have resolved: "get_llm (LLMManager both_keys all_constructed) ''google'' = Some GoogleLLM"
    by (simp add: get_llm_def manager_both_keys)
  have fbs: "fallback_providers (LLMManager both_keys all_constructed) ''google''
      = [(''openai'', OpenAILLM), (''ollama'', OllamaLLM)]"
    by (simp add: fallback_providers_def manager_both_keys)
  have primary_fails: "llm_invoke only_openai_answers [] GoogleLLM ''Hello'' = None"
    by (simp add: only_openai_answers_def)
  have openai: "llm_invoke only_openai_answers
      (attempt_history ([] @ [Invoke GoogleLLM ''Hello'']) ''Hello'' [(''openai'', OpenAILLM), (''ollama'', OllamaLLM)] 0)
      (snd ([(''openai'', OpenAILLM), (''ollama'', OllamaLLM)] ! 0)) ''Hello'' = Some ''ok''"
    by (simp add: only_openai_answers_def)
  note t = generate_response_outcomes[OF resolved, where B = only_openai_answers and h = "[]"
      and prompt = "''Hello''" and content = "''ok''", unfolded Let_def fbs]
  note t0 = t[THEN conjunct2, THEN conjunct1, THEN mp, OF primary_fails, THEN conjunct1, THEN spec, of 0]
  from t0 openai have "generate_response only_openai_answers (LLMManager both_keys all_constructed) ''Hello'' ''google'' []
      = (Success ''ok'' ''fallback-openai'', [Invoke GoogleLLM ''Hello'', Invoke OpenAILLM ''Hello''])"
    by (simp add: attempt_history_def)
  with resolved show ?thesis
    by (rule conjI)
qed

lemma LLMManager_handles:
  "google_llm (LLMManager C K) \<in> {None, Some GoogleLLM}"
  "openai_llm (LLMManager C K) \<in> {None, Some OpenAILLM}"
  "ollama_llm (LLMManager C K) \<in> {None, Some OllamaLLM}"
  by (simp_all add: LLMManager_def initialize_llms_def blank_manager_def Let_def)

lemma fallback_providers_named:
  assumes "get_llm (LLMManager C K) provider = Some l" and "provider \<noteq> ''auto''"
  shows "l \<notin> snd ` set (fallback_providers (LLMManager C K) provider)"
    and "distinct (map snd (fallback_providers (LLMManager C K) provider))"
  using assms LLMManager_handles[of C K]
  by (auto simp: get_llm_def fallback_providers_def split: if_splits option.splits)

lemma manager_google_key_only:
  "LLMManager google_key_only no_ollama =
     \<lparr>google_llm = Some GoogleLLM, openai_llm = None, ollama_llm = None, current_llm = Some GoogleLLM\<rparr>"
  by (simp add: LLMManager_def initialize_llms_def blank_manager_def google_key_only_def
      no_ollama_def truthy_def)

text \<open>
  C2, at the failing input. Only Google is configured, the selector is \<open>auto\<close> and
  every call raises. The guard of the fallback list compares the selector with the
  provider names, so for \<open>auto\<close> nothing is left out: the list holds the provider
  that was just tried, and Google is invoked a second time in the same call.
\<close>

theorem generate_response_auto_invokes_primary_twice:
  "get_llm (LLMManager google_key_only no_ollama) ''auto'' = Some GoogleLLM
   \<and> fallback_providers (LLMManager google_key_only no_ollama) ''auto'' = [(''google'', GoogleLLM)]
   \<and> generate_response never_answers (LLMManager google_key_only no_ollama) ''Hello'' ''auto'' []
       = (Failure ''All LLM providers failed'', [Invoke GoogleLLM ''Hello'', Invoke GoogleLLM ''Hello''])"
  by (simp add: manager_google_key_only get_llm_def fallback_providers_def generate_response_def
      invoke_def never_answers_def)

section \<open>Resolving the selector\<close>

lemma auto_resolves_first_available:
  assumes "\<not> (truthy (GOOGLE_API_KEY C) \<and> google_raises K)"
    and "\<not> (truthy (OPENAI_API_KEY C) \<and> openai_raises K)"
  shows "get_llm (LLMManager C K) ''auto'' =
     (if truthy (GOOGLE_API_KEY C) then Some GoogleLLM
      else if truthy (OPENAI_API_KEY C) then Some OpenAILLM
      else if \<not> ollama_raises K then Some OllamaLLM
      else None)"
    and "google_llm (LLMManager C K) = (if truthy (GOOGLE_API_KEY C) then Some GoogleLLM else None)"
    and "openai_llm (LLMManager C K) = (if truthy (OPENAI_API_KEY C) then Some OpenAILLM else None)"
    and "ollama_llm (LLMManager C K) = (if ollama_raises K then None else Some OllamaLLM)"
  using assms
  by (auto simp: get_llm_def LLMManager_def initialize_llms_def blank_manager_def Let_def)

lemma unconfigured_provider_unresolved:
  "provider = ''google'' \<and> google_llm m = None \<or> provider = ''openai'' \<and> openai_llm m = None
     \<or> provider = ''ollama'' \<and> ollama_llm m = None \<Longrightarrow> get_llm m provider = None"
  by (auto simp: get_llm_def)

lemma unresolved_fails_immediately:
  "get_llm m provider = None \<Longrightarrow> generate_response B m prompt provider h = (Failure ''No LLM available'', h)"
  by (simp add: generate_response_def)

lemma manager_openai_constructor_raises:
  "LLMManager both_keys openai_constructor_raises =
     \<lparr>google_llm = Some GoogleLLM, openai_llm = None, ollama_llm = None, current_llm = None\<rparr>"
  by (simp add: LLMManager_def initialize_llms_def blank_manager_def both_keys_def
      openai_constructor_raises_def truthy_def)

text \<open>
  C10, at the failing input. Both API keys are set and the OpenAI constructor raises.
  The handler of \<open>initialize_llms\<close> takes \<open>openai_llm or ollama_llm\<close>, both still
  unset, although the Google backend was constructed: the selector \<open>google\<close>
  resolves, the selector \<open>auto\<close> does not, and generation with \<open>auto\<close> fails
  without a call.
\<close>

theorem auto_unresolved_though_google_available:
  "google_llm (LLMManager both_keys openai_constructor_raises) = Some GoogleLLM
   \<and> get_llm (LLMManager both_keys openai_constructor_raises) ''google'' = Some GoogleLLM
   \<and> get_llm (LLMManager both_keys openai_constructor_raises) ''auto'' = None
   \<and> generate_response always_answers (LLMManager both_keys openai_constructor_raises) ''Hello'' ''auto'' []
       = (Failure ''No LLM available'', [])"
  by (simp add: manager_openai_constructor_raises get_llm_def generate_response_def)

section \<open>The session coordinator\<close>

text \<open>
  C5. While \<open>is_initialized\<close> is false, \<open>process_query\<close> returns the dictionary
  with \<open>success\<close> false, the error \<open>System not initialized\<close> and a message, and
  nothing else; the history of calls is unchanged, so neither the index nor a language
  model was invoked, whether or not the coordinator holds an agent.
\<close>

theorem process_query_not_initialized:
  assumes "\<not> is_initialized M"
  shows "fst (process_query C B M q h) ''success'' = Some (PyBool False)
    \<and> fst (process_query C B M q h) ''error'' = Some (PyStr ''System not initialized'')
    \<and> str_in ''not initialized'' ''System not initialized''
    \<and> fst (process_query C B M q h) ''message'' = Some (PyStr ''Please initialize the system first'')
    \<and> dom (fst (process_query C B M q h)) = {''success'', ''error'', ''message''}
    \<and> snd (process_query C B M q h) = h"
  using assms by (auto simp: process_query_def)

theorem process_query_not_initialized_witness:
  "\<not> is_initialized (SystemManager\<lparr>rag_agent := Some loaded_agent\<rparr>)
   \<and> fst (process_query both_keys always_answers (SystemManager\<lparr>rag_agent := Some loaded_agent\<rparr>)
         ''What is aspirin?'' []) ''success'' = Some (PyBool False)
   \<and> snd (process_query both_keys always_answers (SystemManager\<lparr>rag_agent := Some loaded_agent\<rparr>)
         ''What is aspirin?'' []) = []"
proof -
  have uninitialized: "\<not> is_initialized (SystemManager\<lparr>rag_agent := Some loaded_agent\<rparr>)"
    by (simp add: SystemManager_def)
  from process_query_not_initialized[OF uninitialized] uninitialized show ?thesis
    by simp
qed

section \<open>The workflow\<close>

subsection \<open>What each stage leaves unchanged\<close>

lemma retrieve_documents_frame:
  "improvement_count (fst (retrieve_documents B A s h)) = improvement_count s"
  "response (fst (retrieve_documents B A s h)) = response s"
  "confidence (fst (retrieve_documents B A s h)) = confidence s"
  by (auto simp: retrieve_documents_def Let_def split: prod.splits sum.splits)

lemma analyze_query_frame:
  "improvement_count (fst (analyze_query B A s h)) = improvement_count s"
  "response (fst (analyze_query B A s h)) = response s"
  "confidence (fst (analyze_query B A s h)) = confidence s"
  "context_str (fst (analyze_query B A s h)) = context_str s"
  by (auto simp: analyze_query_def Let_def split: prod.splits gen_result.splits)

lemma agent_generate_response_frame:
  "improvement_count (fst (agent_generate_response B A s h)) = improvement_count s"
  by (auto simp: agent_generate_response_def Let_def split: prod.splits gen_result.splits)

lemma evaluate_response_frame:
  "improvement_count (fst (evaluate_response B A s h)) = improvement_count s"
  "response (fst (evaluate_response B A s h)) = response s"
  by (auto simp: evaluate_response_def Let_def split: prod.splits eval_result.splits)

lemma improve_response_frame:
  "improvement_count (fst (improve_response B A s h)) = improvement_count s"
  by (auto simp: improve_response_def Let_def split: prod.splits gen_result.splits)


lemma should_improve_edge:
  "fst (should_improve C s) = ''improve'' \<longleftrightarrow> improvement_count s < 3 \<and> confidence s < CONFIDENCE_THRESHOLD C"
  by (simp add: should_improve_def)

subsection \<open>Runs and the limit of the engine\<close>

lemma run_steps_0 [simp]: "run_steps C B A 0 cfg = cfg"
  by (simp add: run_steps_def)

lemma run_steps_Suc: "run_steps C B A (Suc n) cfg = workflow_step C B A (run_steps C B A n cfg)"
  by (simp add: run_steps_def)

lemma run_steps_Suc': "run_steps C B A (Suc n) cfg = run_steps C B A n (workflow_step C B A cfg)"
  by (simp add: run_steps_def funpow_swap1)

lemma workflow_step_at_END: "fst cfg = END \<Longrightarrow> workflow_step C B A cfg = cfg"
  by (cases cfg) simp

lemma run_steps_at_END: "fst cfg = END \<Longrightarrow> run_steps C B A n cfg = cfg"
  by (induction n) (simp_all add: run_steps_Suc workflow_step_at_END)

declare str_nat.simps [simp del]

lemma run_workflow_reaches:
  "fst (run_steps C B A n cfg) = END \<Longrightarrow> n \<le> k \<Longrightarrow>
   run_workflow C B A k cfg = (Inr (fst (snd (run_steps C B A n cfg))), snd (snd (run_steps C B A n cfg)))"
proof (induction k arbitrary: n cfg)
  case 0
  then show ?case
    by (cases cfg) simp
next
  case (Suc k)
  obtain nd s h where cfg: "cfg = (nd, s, h)"
    by (cases cfg) auto
  show ?case
  proof (cases "nd = END")
    case True
    with cfg show ?thesis
      by (simp add: run_steps_at_END)
  next
    case False
    with Suc.prems(1) cfg obtain n' where n: "n = Suc n'"
      by (cases n) auto
    with Suc.prems have "fst (run_steps C B A n' (workflow_step C B A cfg)) = END" "n' \<le> k"
      by (simp_all add: run_steps_Suc')
    from Suc.IH[OF this] False cfg n show ?thesis
      by (simp add: run_steps_Suc' del: workflow_step.simps)
  qed
qed

lemma run_workflow_gives_up:
  "\<forall>n\<le>k. fst (run_steps C B A n cfg) \<noteq> END \<Longrightarrow>
   run_workflow C B A k cfg = (Inl (workflow_recursion_error A), snd (snd (run_steps C B A k cfg)))"
proof (induction k arbitrary: cfg)
  case 0
  then show ?case
    by (cases cfg) auto
next
  case (Suc k)
  obtain nd s h where cfg: "cfg = (nd, s, h)"
    by (cases cfg) auto
  from Suc.prems have here: "nd \<noteq> END"
    using cfg by (auto dest: spec[of _ 0])
  have "\<forall>n\<le>k. fst (run_steps C B A n (workflow_step C B A cfg)) \<noteq> END"
  proof (intro allI impI)
    fix n assume "n \<le> k"
    then have "Suc n \<le> Suc k" by simp
    with Suc.prems have "fst (run_steps C B A (Suc n) cfg) \<noteq> END" by blast
    then show "fst (run_steps C B A n (workflow_step C B A cfg)) \<noteq> END"
      by (simp add: run_steps_Suc')
  qed
  from Suc.IH[OF this] here cfg show ?case
    by (simp add: run_steps_Suc' del: workflow_step.simps)
qed

lemma run_workflow_returns:
  "run_workflow C B A k cfg = (Inr final_state, h') \<Longrightarrow>
   \<exists>n\<le>k. run_steps C B A n cfg = (END, final_state, h')"
proof (induction k arbitrary: cfg)
  case 0
  then have "run_steps C B A 0 cfg = (END, final_state, h')"
    by (cases cfg) (auto split: if_splits)
  then show ?case by blast
next
  case (Suc k)
  obtain nd s h where cfg: "cfg = (nd, s, h)"
    by (cases cfg) auto
  show ?case
  proof (cases "nd = END")
    case True
    with Suc.prems cfg have "run_steps C B A 0 cfg = (END, final_state, h')"
      by simp
    then show ?thesis by blast
  next
    case False
    with Suc.prems cfg have "run_workflow C B A k (workflow_step C B A cfg) = (Inr final_state, h')"
      by simp
    from Suc.IH[OF this] obtain n where "n \<le> k" "run_steps C B A n (workflow_step C B A cfg) = (END, final_state, h')"
      by blast
    then have "Suc n \<le> Suc k \<and> run_steps C B A (Suc n) cfg = (END, final_state, h')"
      by (simp add: run_steps_Suc')
    then show ?thesis by blast
  qed
qed

lemma run_workflow_succeeds_iff:
  "(\<exists>final_state h'. run_workflow C B A k cfg = (Inr final_state, h')) \<longleftrightarrow>
   (\<exists>n\<le>k. fst (run_steps C B A n cfg) = END)"
proof
  assume "\<exists>final_state h'. run_workflow C B A k cfg = (Inr final_state, h')"
  then obtain fs h' where "run_workflow C B A k cfg = (Inr fs, h')" by blast
  from run_workflow_returns[OF this] show "\<exists>n\<le>k. fst (run_steps C B A n cfg) = END"
    by auto
next
  assume "\<exists>n\<le>k. fst (run_steps C B A n cfg) = END"
  then obtain n where "fst (run_steps C B A n cfg) = END" "n \<le> k" by blast
  from run_workflow_reaches[OF this] show "\<exists>final_state h'. run_workflow C B A k cfg = (Inr final_state, h')"
    by blast
qed

lemma run_workflow_fails_iff:
  "(\<exists>e h'. run_workflow C B A k cfg = (Inl e, h')) \<longleftrightarrow> \<not> (\<exists>n\<le>k. fst (run_steps C B A n cfg) = END)"
proof -
  obtain r h' where r: "run_workflow C B A k cfg = (r, h')"
    by (cases "run_workflow C B A k cfg") auto
  show ?thesis
    using run_workflow_succeeds_iff[of C B A k cfg] r by (cases r) auto
qed

subsection \<open>Bounds that hold along every run\<close>

lemma keyword_confidence_bounds: "keyword_confidence a \<le> 0.9" "0.5 \<le> keyword_confidence a"
  by (simp_all add: keyword_confidence_def)

lemma stage_confidence_bounds:
  "confidence s \<le> 0.95 \<Longrightarrow> confidence (fst (agent_generate_response B A s h)) \<le> 0.95"
  "confidence s \<le> 0.95 \<Longrightarrow> confidence (fst (evaluate_response B A s h)) \<le> 0.95"
  "confidence (fst (improve_response B A s h)) \<le> max 0.95 (confidence s)"
    apply (auto simp: agent_generate_response_def Let_def split: prod.splits gen_result.splits)[1]
   apply (auto simp: evaluate_response_def Let_def keyword_confidence_def split: prod.splits eval_result.splits)[1]
  apply (auto simp: improve_response_def Let_def split: prod.splits gen_result.splits)[1]
  done

lemma workflow_step_keeps_count:
  "improvement_count (fst (snd (workflow_step C B A cfg))) = improvement_count (fst (snd cfg))"
proof -
  obtain n s h where cfg: "cfg = (n, s, h)"
    by (cases cfg) auto
  show ?thesis
  proof (cases n)
    case Retrieve
    with cfg retrieve_documents_frame(1)[of B A s h] show ?thesis by simp
  next
    case Analyze
    with cfg analyze_query_frame(1)[of B A s h] show ?thesis by simp
  next
    case Generate
    with cfg agent_generate_response_frame[of B A s h] show ?thesis by simp
  next
    case Evaluate
    with cfg evaluate_response_frame(1)[of B A s h] show ?thesis
      by (cases "evaluate_response B A s h") simp
  next
    case Improve
    with cfg improve_response_frame[of B A s h] show ?thesis by simp
  next
    case END
    with cfg show ?thesis by simp
  qed
qed

lemma run_steps_keeps_count:
  "improvement_count (fst (snd (run_steps C B A n cfg))) = improvement_count (fst (snd cfg))"
  by (induction n) (simp_all add: run_steps_Suc workflow_step_keeps_count)

lemma workflow_step_confidence:
  assumes "confidence (fst (snd cfg)) \<le> 0.95"
  shows "confidence (fst (snd (workflow_step C B A cfg))) \<le> 0.95"
proof -
  obtain n s h where cfg: "cfg = (n, s, h)"
    by (cases cfg) auto
  from assms cfg have s: "confidence s \<le> 0.95"
    by simp
  show ?thesis
  proof (cases n)
    case Retrieve
    with cfg s retrieve_documents_frame(3)[of B A s h] show ?thesis by simp
  next
    case Analyze
    with cfg s analyze_query_frame(3)[of B A s h] show ?thesis by simp
  next
    case Generate
    with cfg s stage_confidence_bounds(1)[of s B A h] show ?thesis by simp
  next
    case Evaluate
    with cfg s stage_confidence_bounds(2)[of s B A h] show ?thesis
      by (cases "evaluate_response B A s h") simp
  next
    case Improve
    with cfg s stage_confidence_bounds(3)[of B A s h] show ?thesis by simp
  next
    case END
    with cfg s show ?thesis by simp
  qed
qed

lemma run_steps_invariant:
  "improvement_count (fst (snd (run_steps C B A n (Retrieve, AgentState q, h)))) \<le> 3
   \<and> confidence (fst (snd (run_steps C B A n (Retrieve, AgentState q, h)))) \<le> 0.95"
proof (induction n)
  case 0
  show ?case by (simp add: AgentState_def)
next
  case (Suc n)
  then have "confidence (fst (snd (run_steps C B A n (Retrieve, AgentState q, h)))) \<le> 0.95"
    by simp
  from workflow_step_confidence[OF this] Suc show ?case
    by (simp add: run_steps_Suc workflow_step_keeps_count del: workflow_step.simps)
qed


subsection \<open>A run that never ends\<close>

lemma try_fallbacks_never_answered:
  assumes "\<forall>h l p. llm_invoke B h l p = None"
  shows "\<exists>h'. try_fallbacks B prompt fbs h = (Failure ''All LLM providers failed'', h')"
proof (induction fbs arbitrary: h)
  case Nil
  show ?case by simp
next
  case (Cons fb fbs)
  obtain name l where fb: "fb = (name, l)" by (cases fb) auto
  from assms Cons[of "h @ [Invoke l prompt]"] show ?case
    by (simp add: fb invoke_def)
qed

lemma generate_response_never_answered:
  assumes "\<forall>h l p. llm_invoke B h l p = None"
  shows "\<exists>e h'. generate_response B m prompt provider h = (Failure e, h')"
proof (cases "get_llm m provider")
  case None
  then show ?thesis by (simp add: generate_response_def)
next
  case (Some l)
  from try_fallbacks_never_answered[OF assms, of prompt "fallback_providers m provider" "h @ [Invoke l prompt]"]
  obtain h' where "try_fallbacks B prompt (fallback_providers m provider) (h @ [Invoke l prompt]) =
      (Failure ''All LLM providers failed'', h')"
    by blast
  with Some assms show ?thesis
    by (simp add: generate_response_def invoke_def)
qed

lemma never_answered_step:
  assumes fail: "\<forall>h l p. llm_invoke B h l p = None"
    and threshold: "0 < CONFIDENCE_THRESHOLD C"
    and inv: "fst cfg \<noteq> END \<and> response (fst (snd cfg)) = [] \<and> confidence (fst (snd cfg)) = 0
      \<and> improvement_count (fst (snd cfg)) < 3"
  shows "fst (workflow_step C B A cfg) \<noteq> END \<and> response (fst (snd (workflow_step C B A cfg))) = []
      \<and> confidence (fst (snd (workflow_step C B A cfg))) = 0
      \<and> improvement_count (fst (snd (workflow_step C B A cfg))) < 3"
proof -
  obtain n s h where cfg: "cfg = (n, s, h)"
    by (cases cfg) auto
  from inv cfg have s: "response s = []" "confidence s = 0" "improvement_count s < 3" and n: "n \<noteq> END"
    by simp_all
  show ?thesis
  proof (cases n)
    case Retrieve
    with cfg s retrieve_documents_frame[of B A s h] show ?thesis by simp
  next
    case Analyze
    with cfg s analyze_query_frame[of B A s h] show ?thesis by simp
  next
    case Generate
    from generate_response_never_answered[OF fail]
    obtain e h' where "generate_response B (agent_llm_manager A)
        (medical_prompt (query s) (context_str s)) ''auto'' h = (Failure e, h')"
      by blast
    with cfg s Generate show ?thesis
      by (simp add: agent_generate_response_def generate_medical_response_def Let_def)
  next
    case Evaluate
    with cfg s threshold show ?thesis
      by (simp add: evaluate_response_def should_improve_def Let_def)
  next
    case Improve
    from generate_response_never_answered[OF fail]
    obtain e h' where "generate_response B (agent_llm_manager A)
        (improvement_prompt (s\<lparr>step := ''improve''\<rparr>)) ''auto'' h = (Failure e, h')"
      by blast
    with cfg s Improve show ?thesis
      by (simp add: improve_response_def Let_def)
  next
    case END
    with n show ?thesis by simp
  qed
qed

lemma never_answered_run:
  assumes fail: "\<forall>h l p. llm_invoke B h l p = None"
    and threshold: "0 < CONFIDENCE_THRESHOLD C"
  shows "fst (run_steps C B A n (Retrieve, AgentState q, h0)) \<noteq> END
      \<and> response (fst (snd (run_steps C B A n (Retrieve, AgentState q, h0)))) = []
      \<and> confidence (fst (snd (run_steps C B A n (Retrieve, AgentState q, h0)))) = 0
      \<and> improvement_count (fst (snd (run_steps C B A n (Retrieve, AgentState q, h0)))) < 3"
proof (induction n)
  case 0
  show ?case by (simp add: AgentState_def)
next
  case (Suc n)
  from never_answered_step[OF fail threshold Suc] show ?case
    by (simp add: run_steps_Suc)
qed

lemma never_answered_invoke:
  assumes fail: "\<forall>h l p. llm_invoke B h l p = None"
    and threshold: "0 < CONFIDENCE_THRESHOLD C"
  shows "fst (workflow_invoke C B A (AgentState q) h0) = Inl (workflow_recursion_error A)"
proof -
  have "\<forall>n\<le>workflow_recursion_limit A. fst (run_steps C B A n (Retrieve, AgentState q, h0)) \<noteq> END"
    using never_answered_run[OF fail threshold] by blast
  from run_workflow_gives_up[OF this] show ?thesis
    by (simp add: workflow_invoke_def)
qed

lemma never_answers_fails: "\<forall>h l p. llm_invoke never_answers h l p = None"
  by (simp add: never_answers_def)

lemma both_keys_threshold: "0 < CONFIDENCE_THRESHOLD both_keys"
  by (simp add: both_keys_def)

text \<open>
  C8, at the failing input. The index returns no chunk and every call to a language
  model raises, with the threshold 0.7. The response stays empty and the confidence stays
  0, so the branch decision answers \<open>improve\<close> after every evaluate. Its write to
  \<open>improvement_count\<close> is made on the state it was given and is not part of what the
  next node receives, so the counter of the run stays 0 and the ceiling of 3 is never
  met: the run reaches \<open>END\<close> after no number of nodes. Whatever its limit, the
  engine gives up and raises, and \<open>process_query\<close> returns the dictionary of its
  handler, with \<open>success\<close> false.
\<close>

theorem workflow_never_reaches_END:
  "(\<forall>n. fst (run_steps both_keys never_answers loaded_agent n (Retrieve, AgentState ''What is aspirin?'', [])) \<noteq> END)
   \<and> (\<forall>n. improvement_count (fst (snd (run_steps both_keys never_answers loaded_agent n
          (Retrieve, AgentState ''What is aspirin?'', [])))) = 0)
   \<and> (\<forall>limit. fst (workflow_invoke both_keys never_answers
          (loaded_agent\<lparr>workflow_recursion_limit := limit\<rparr>) (AgentState ''What is aspirin?'') [])
        = Inl (workflow_recursion_error loaded_agent))
   \<and> fst (agent_process_query both_keys never_answers loaded_agent ''What is aspirin?'' []) ''success''
        = Some (PyBool False)"
proof -
  have a: "\<forall>n. fst (run_steps both_keys never_answers loaded_agent n
      (Retrieve, AgentState ''What is aspirin?'', [])) \<noteq> END"
    using never_answered_run[OF never_answers_fails both_keys_threshold] by blast
  have b: "\<forall>n. improvement_count (fst (snd (run_steps both_keys never_answers loaded_agent n
          (Retrieve, AgentState ''What is aspirin?'', [])))) = 0"
    by (simp add: run_steps_keeps_count AgentState_def)
  have c: "\<forall>limit. fst (workflow_invoke both_keys never_answers
          (loaded_agent\<lparr>workflow_recursion_limit := limit\<rparr>) (AgentState ''What is aspirin?'') [])
        = Inl (workflow_recursion_error loaded_agent)"
    using never_answered_invoke[OF never_answers_fails both_keys_threshold] by simp
  obtain r h' where r: "workflow_invoke both_keys never_answers loaded_agent (AgentState ''What is aspirin?'') [] = (r, h')"
    by (cases "workflow_invoke both_keys never_answers loaded_agent (AgentState ''What is aspirin?'') []") auto
  with never_answered_invoke[OF never_answers_fails both_keys_threshold, of loaded_agent "''What is aspirin?''" "[]"]
  have "r = Inl (workflow_recursion_error loaded_agent)"
    by simp
  with r have d: "fst (agent_process_query both_keys never_answers loaded_agent ''What is aspirin?'' []) ''success''
        = Some (PyBool False)"
    by (simp add: agent_process_query_def fault_result_def)
  from a b c d show ?thesis
    by blast
qed

subsection \<open>The stages evaluate and improve\<close>

lemmas stage_defs =
  retrieve_documents_def analyze_query_def agent_generate_response_def evaluate_response_def
  improve_response_def should_improve_def similarity_search_def
  generate_medical_response_def evaluate_response_quality_def generate_response_def
  get_llm_def fallback_providers_def invoke_def

lemma loaded_agent_simps:
  "agent_vector_store loaded_agent = \<lparr>store_loaded = True\<rparr>"
  "agent_llm_manager loaded_agent =
     \<lparr>google_llm = Some GoogleLLM, openai_llm = Some OpenAILLM, ollama_llm = Some OllamaLLM,
      current_llm = Some GoogleLLM\<rparr>"
  "workflow_returns_dict loaded_agent = True"
  "workflow_recursion_limit loaded_agent = 25"
  by (simp_all add: loaded_agent_def manager_both_keys)

lemma lower_Good: "lower ''Good, adequate answer'' = ''good, adequate answer''"
  by code_simp

text \<open>
  C6. With a non-empty response, the evaluate stage asks for an assessment. If the call
  succeeds, the confidence is 0.9 when the assessment contains \<open>confidence\<close>,
  otherwise 0.8 when it contains \<open>good\<close>, otherwise 0.6 when it contains
  \<open>adequate\<close>, otherwise 0.5, the first match deciding; the keywords are looked for
  in the lower-cased assessment, so letter case does not matter. The assessment is stored
  under \<open>quality_assessment\<close>. If the call fails, the confidence is 0.5 whatever it
  was. With an empty response the stage sets the error \<open>No response to evaluate\<close>,
  leaves the confidence as it was and makes no call.
\<close>

theorem evaluate_response_policy:
  "(response s \<noteq> [] \<longrightarrow>
      (case generate_response B (agent_llm_manager A)
              (evaluation_prompt (query s) (response s) (context_str s)) ''auto'' h of
         (Success assessment tag, h') \<Rightarrow>
           confidence (fst (evaluate_response B A s h)) =
             (if str_in ''confidence'' (lower assessment) then 0.9
              else if str_in ''good'' (lower assessment) then 0.8
              else if str_in ''adequate'' (lower assessment) then 0.6
              else 0.5)
           \<and> evaluation (fst (evaluate_response B A s h)) ''quality_assessment'' = Some assessment
       | (Failure e, h') \<Rightarrow> confidence (fst (evaluate_response B A s h)) = 0.5))
   \<and> (response s = [] \<longrightarrow>
        error (fst (evaluate_response B A s h)) = ''No response to evaluate''
        \<and> confidence (fst (evaluate_response B A s h)) = confidence s
        \<and> snd (evaluate_response B A s h) = h)"
  by (auto simp: evaluate_response_def evaluate_response_quality_def keyword_confidence_def Let_def
      split: prod.splits gen_result.splits)

theorem evaluate_response_policy_witness:
  "response answered \<noteq> []
   \<and> confidence (fst (evaluate_response praising loaded_agent answered [])) = 0.8
   \<and> confidence (fst (evaluate_response never_answers loaded_agent answered [])) = 0.5
   \<and> response (AgentState ''What is aspirin?'') = []
   \<and> confidence (fst (evaluate_response praising loaded_agent (AgentState ''What is aspirin?'') [])) = 0"
proof -
  have nonempty: "response answered \<noteq> []"
    by (simp add: answered_def AgentState_def)
  have empty: "response (AgentState ''What is aspirin?'') = []"
    by (simp add: AgentState_def)
  have g1: "generate_response praising (agent_llm_manager loaded_agent) p ''auto'' [] =
      (Success ''Good, adequate answer'' ''auto-selected'', [Invoke GoogleLLM p])" for p
    by (simp add: generate_response_def get_llm_def loaded_agent_simps invoke_def praising_def)
  have g2: "generate_response never_answers (agent_llm_manager loaded_agent) p ''auto'' [] =
      (Failure ''All LLM providers failed'',
       [Invoke GoogleLLM p, Invoke GoogleLLM p, Invoke OpenAILLM p, Invoke OllamaLLM p])" for p
    by (simp add: generate_response_def get_llm_def fallback_providers_def loaded_agent_simps
        invoke_def never_answers_def)
  note t1 = evaluate_response_policy[of answered praising loaded_agent "[]", THEN conjunct1, THEN mp, OF nonempty]
  note t2 = evaluate_response_policy[of answered never_answers loaded_agent "[]", THEN conjunct1, THEN mp, OF nonempty]
  note t3 = evaluate_response_policy[of "AgentState ''What is aspirin?''" praising loaded_agent "[]",
      THEN conjunct2, THEN mp, OF empty]
  from t1 g1 have a: "confidence (fst (evaluate_response praising loaded_agent answered [])) = 0.8"
    by (simp add: lower_Good)
  from t2 g2 have b: "confidence (fst (evaluate_response never_answers loaded_agent answered [])) = 0.5"
    by simp
  from t3 have c: "confidence (fst (evaluate_response praising loaded_agent (AgentState ''What is aspirin?'') [])) = 0"
    by (simp add: AgentState_def)
  from nonempty a b empty c show ?thesis
    by simp
qed

lemma improve_response_cases:
  "(case generate_response B (agent_llm_manager A) (improvement_prompt s) ''auto'' h of
      (Success content tag, h') \<Rightarrow>
        response (fst (improve_response B A s h)) = content
        \<and> confidence (fst (improve_response B A s h)) = min 0.95 (confidence s + 0.1)
    | (Failure e, h') \<Rightarrow>
        response (fst (improve_response B A s h)) = response s
        \<and> confidence (fst (improve_response B A s h)) = confidence s)"
  by (auto simp: improve_response_def improvement_prompt_def Let_def split: prod.splits gen_result.splits)

lemma improve_response_monotone:
  assumes "confidence s \<le> 0.95"
  shows "confidence s \<le> confidence (fst (improve_response B A s h))"
  using assms
  by (auto simp: improve_response_def Let_def split: prod.splits gen_result.splits)

text \<open>
  C7. The improve stage asks for an improved answer. If the call succeeds, the response
  becomes the new text and the confidence becomes the smaller of 0.95 and the old
  confidence plus 0.1; if it fails, response and confidence stay exactly as they were.
  So the stage does not lower a confidence of at most 0.95, and in every run from the
  initial state the confidence with which the improve stage is entered is such a one:
  the improve stage never lowers the confidence.
\<close>

theorem improve_response_confidence:
  "(case generate_response B (agent_llm_manager A) (improvement_prompt s) ''auto'' h of
      (Success content tag, h') \<Rightarrow>
        response (fst (improve_response B A s h)) = content
        \<and> confidence (fst (improve_response B A s h)) = min 0.95 (confidence s + 0.1)
    | (Failure e, h') \<Rightarrow>
        response (fst (improve_response B A s h)) = response s
        \<and> confidence (fst (improve_response B A s h)) = confidence s)
   \<and> (confidence s \<le> 0.95 \<longrightarrow> confidence s \<le> confidence (fst (improve_response B A s h)))
   \<and> (case run_steps C B A n (Retrieve, AgentState q, h0) of
         (nd, s', h') \<Rightarrow>
           nd = Improve \<longrightarrow> confidence s' \<le> confidence (fst (improve_response B A s' h')))"
proof -
  obtain nd s' h' where r: "run_steps C B A n (Retrieve, AgentState q, h0) = (nd, s', h')"
    by (cases "run_steps C B A n (Retrieve, AgentState q, h0)") auto
  from run_steps_invariant[of C B A n q h0] r have "confidence s' \<le> 0.95"
    by simp
  from improve_response_monotone[OF this] have "confidence s' \<le> confidence (fst (improve_response B A s' h'))" .
  with r improve_response_cases[of B A s h] improve_response_monotone[of s B A h] show ?thesis
    by simp
qed

lemma run4_always_answers:
  "run_steps both_keys always_answers loaded_agent 4 (Retrieve, AgentState ''What is aspirin?'', []) =
     (Improve,
      (AgentState ''What is aspirin?'')
        \<lparr>step := ''evaluate'', error := ''No response to evaluate'',
         evaluation := [''query_analysis'' \<mapsto> ''ok'']\<rparr>,
      [Search ''What is aspirin?'', Invoke GoogleLLM (analysis_prompt (AgentState ''What is aspirin?''))])"
  by (simp add: eval_nat_numeral run_steps_Suc stage_defs loaded_agent_simps always_answers_def
      both_keys_def AgentState_def Let_def analysis_prompt_def)

theorem improve_response_confidence_witness:
  "(case run_steps both_keys always_answers loaded_agent 4 (Retrieve, AgentState ''What is aspirin?'', []) of
      (nd, s', h') \<Rightarrow>
        nd = Improve \<and> confidence s' = 0
        \<and> confidence (fst (improve_response always_answers loaded_agent s' h')) = 0.1
        \<and> response (fst (improve_response always_answers loaded_agent s' h')) = ''ok'')"
proof -
  define s4 where "s4 = (AgentState ''What is aspirin?'')
        \<lparr>step := ''evaluate'', error := ''No response to evaluate'',
         evaluation := [''query_analysis'' \<mapsto> ''ok'']\<rparr>"
  define h4 where "h4 = [Search ''What is aspirin?'',
      Invoke GoogleLLM (analysis_prompt (AgentState ''What is aspirin?''))]"
  have r: "run_steps both_keys always_answers loaded_agent 4 (Retrieve, AgentState ''What is aspirin?'', []) =
      (Improve, s4, h4)"
    unfolding s4_def h4_def by (rule run4_always_answers)
  have c: "confidence s4 = 0"
    by (simp add: s4_def AgentState_def)
  have g: "generate_response always_answers (agent_llm_manager loaded_agent) p ''auto'' h =
      (Success ''ok'' ''auto-selected'', h @ [Invoke GoogleLLM p])" for p h
    by (simp add: generate_response_def get_llm_def loaded_agent_simps invoke_def always_answers_def)
  note t = improve_response_confidence[of always_answers loaded_agent s4 h4
      both_keys 4 "''What is aspirin?''" "[]"]
  from t[THEN conjunct1] have "response (fst (improve_response always_answers loaded_agent s4 h4)) = ''ok''
      \<and> confidence (fst (improve_response always_answers loaded_agent s4 h4)) = 0.1"
    by (simp add: g c)
  with c show ?thesis
    by (simp add: r)
qed

subsection \<open>A run that never has a response\<close>

text \<open>
  C9, at the failing input. The index is loaded and returns no chunk, and every call to
  a language model raises. Generate finds no context and sets no response, evaluate
  finds no response and leaves the confidence at 0, and the branch decision, which looks
  at the counter and the confidence only, answers \<open>improve\<close>: after four nodes the
  node to run next is improve and the response is empty, and the fifth node that runs
  is the improve stage.
\<close>

theorem improve_runs_with_empty_response:
  "fst (run_steps both_keys never_answers loaded_agent 4 (Retrieve, AgentState ''What is aspirin?'', [])) = Improve
   \<and> response (fst (snd (run_steps both_keys never_answers loaded_agent 4
        (Retrieve, AgentState ''What is aspirin?'', [])))) = []
   \<and> step (fst (snd (run_steps both_keys never_answers loaded_agent 5
        (Retrieve, AgentState ''What is aspirin?'', [])))) = ''improve''"
  by (simp add: eval_nat_numeral run_steps_Suc stage_defs loaded_agent_simps never_answers_def
      both_keys_def AgentState_def Let_def)

section \<open>The result of a query\<close>

lemma empty_retrieval_three_nodes:
  assumes "fst (similarity_search B (agent_vector_store A) q h) = Inr []"
  shows "\<exists>s h'. run_steps C B A 3 (Retrieve, AgentState q, h) = (Evaluate, s, h')
      \<and> error s = ''No context available for response generation''
      \<and> response s = [] \<and> context_str s = []"
proof -
  obtain h1 where ss: "similarity_search B (agent_vector_store A) q h = (Inr [], h1)"
    using assms by (cases "similarity_search B (agent_vector_store A) q h") auto
  define s1 where "s1 = (AgentState q)\<lparr>step := ''retrieve'', error := ''No relevant documents found''\<rparr>"
  have one: "retrieve_documents B A (AgentState q) h = (s1, h1)"
    using ss by (simp add: retrieve_documents_def Let_def s1_def AgentState_def)
  obtain s2 h2 where two: "analyze_query B A s1 h1 = (s2, h2)"
    by (cases "analyze_query B A s1 h1") auto
  from analyze_query_frame(2,4)[of B A s1 h1] two have s2: "response s2 = []" "context_str s2 = []"
    by (simp_all add: s1_def AgentState_def)
  have "run_steps C B A 3 (Retrieve, AgentState q, h) =
      (Evaluate, agent_generate_response B A s2 h2)"
    by (simp add: eval_nat_numeral run_steps_Suc one two)
  with s2 show ?thesis
    by (simp add: agent_generate_response_def Let_def)
qed

lemma run6_praising:
  "(case run_steps both_keys praising loaded_agent 6 (Retrieve, AgentState ''What is aspirin?'', []) of
      (nd, s, h) \<Rightarrow> nd = END \<and> response s = ''Good, adequate answer'' \<and> confidence s = 0.8)"
  by (simp add: eval_nat_numeral run_steps_Suc stage_defs loaded_agent_simps praising_def
      both_keys_def AgentState_def Let_def keyword_confidence_def lower_Good)

text \<open>
  C1, as stated, fails. The index returns no chunk, so generate sets no response and
  evaluate leaves the confidence at 0; the improve stage then runs on the empty response,
  the language model answers, and the next evaluate reads \<open>good\<close> in the assessment
  and sets the confidence 0.8, above the threshold 0.7. The run ends after six nodes: the
  result has \<open>success\<close> true and a response that is not empty, although retrieval
  returned zero chunks.
\<close>

theorem empty_retrieval_answered_with_success:
  "fst (similarity_search praising (agent_vector_store loaded_agent) ''What is aspirin?'' []) = Inr []
   \<and> fst (process_query both_keys praising ready_manager ''What is aspirin?'' []) ''success'' = Some (PyBool True)
   \<and> fst (process_query both_keys praising ready_manager ''What is aspirin?'' []) ''response''
        = Some (PyStr ''Good, adequate answer'')"
proof -
  obtain nd s h where r: "run_steps both_keys praising loaded_agent 6
      (Retrieve, AgentState ''What is aspirin?'', []) = (nd, s, h)"
    by (cases "run_steps both_keys praising loaded_agent 6 (Retrieve, AgentState ''What is aspirin?'', [])") auto
  with run6_praising have s: "nd = END" "response s = ''Good, adequate answer''"
    by simp_all
  from r s have "fst (run_steps both_keys praising loaded_agent 6
      (Retrieve, AgentState ''What is aspirin?'', [])) = END"
    by simp
  from run_workflow_reaches[OF this, of 25] r
  have "workflow_invoke both_keys praising loaded_agent (AgentState ''What is aspirin?'') [] = (Inr s, h)"
    by (simp add: workflow_invoke_def loaded_agent_simps)
  moreover have "fst (similarity_search praising (agent_vector_store loaded_agent) ''What is aspirin?'' []) = Inr []"
    by (simp add: similarity_search_def loaded_agent_simps praising_def)
  ultimately show ?thesis
    using s by (simp add: process_query_def ready_manager_def agent_process_query_def
        completed_result_def loaded_agent_simps)
qed

text \<open>
  C1, amended. \<open>process_query\<close> always returns a result dictionary with the key
  \<open>success\<close>. On the coordinator \<open>success\<close> is true exactly when the system is
  initialized, holds an agent and the run of the workflow reaches \<open>END\<close> within the
  limit of the engine; on the agent it is true exactly when the run reaches \<open>END\<close>
  within that limit. So \<open>success\<close> is false only when the system was not initialized
  or a fault was caught: the engine giving up on the run, in which case the result has the
  response \<open>None\<close> and the text of the exception as its error, or the coordinator
  holding no agent. A run that reaches \<open>END\<close> returns the dictionary built from its
  final state, with \<open>success\<close> true whether or not that state has a response. When
  retrieval returns no chunk, the generate stage sets the error
  \<open>No context available for response generation\<close> and sets no response.
\<close>

theorem process_query_success_flag:
  "fst (process_query C B M q h) ''success'' =
      Some (PyBool (is_initialized M \<and>
        (\<exists>A'. rag_agent M = Some A' \<and>
          (\<exists>n\<le>workflow_recursion_limit A'. fst (run_steps C B A' n (Retrieve, AgentState q, h)) = END))))
   \<and> fst (agent_process_query C B A q h) ''success'' =
      Some (PyBool (\<exists>n\<le>workflow_recursion_limit A. fst (run_steps C B A n (Retrieve, AgentState q, h)) = END))
   \<and> ((\<forall>n\<le>workflow_recursion_limit A. fst (run_steps C B A n (Retrieve, AgentState q, h)) \<noteq> END) \<longrightarrow>
        fst (agent_process_query C B A q h) ''response'' = Some PyNone
        \<and> fst (agent_process_query C B A q h) ''error'' = Some (PyStr (workflow_recursion_error A)))
   \<and> (\<forall>n\<le>workflow_recursion_limit A.
        fst (run_steps C B A n (Retrieve, AgentState q, h)) = END \<longrightarrow>
        fst (agent_process_query C B A q h) =
          completed_result A q (fst (snd (run_steps C B A n (Retrieve, AgentState q, h)))))
   \<and> (fst (similarity_search B (agent_vector_store A) q h) = Inr [] \<longrightarrow>
        (case run_steps C B A 3 (Retrieve, AgentState q, h) of
           (nd, s, h') \<Rightarrow>
             nd = Evaluate \<and> error s = ''No context available for response generation''
             \<and> response s = []))"
proof -
  have agent: "fst (agent_process_query C B A' q h) ''success'' =
      Some (PyBool (\<exists>n\<le>workflow_recursion_limit A'. fst (run_steps C B A' n (Retrieve, AgentState q, h)) = END))"
    for A'
  proof (cases "\<exists>n\<le>workflow_recursion_limit A'. fst (run_steps C B A' n (Retrieve, AgentState q, h)) = END")
    case True
    then obtain n where "fst (run_steps C B A' n (Retrieve, AgentState q, h)) = END"
      "n \<le> workflow_recursion_limit A'"
      by blast
    from run_workflow_reaches[OF this] True show ?thesis
      by (simp add: agent_process_query_def workflow_invoke_def completed_result_def)
  next
    case False
    then have "\<forall>n\<le>workflow_recursion_limit A'. fst (run_steps C B A' n (Retrieve, AgentState q, h)) \<noteq> END"
      by blast
    from run_workflow_gives_up[OF this] False show ?thesis
      by (simp add: agent_process_query_def workflow_invoke_def fault_result_def)
  qed
  have system: "fst (process_query C B M q h) ''success'' =
      Some (PyBool (is_initialized M \<and>
        (\<exists>A'. rag_agent M = Some A' \<and>
          (\<exists>n\<le>workflow_recursion_limit A'. fst (run_steps C B A' n (Retrieve, AgentState q, h)) = END))))"
  proof (cases "is_initialized M")
    case False
    then show ?thesis
      by (simp add: process_query_def)
  next
    case True
    show ?thesis
    proof (cases "rag_agent M")
      case None
      with True show ?thesis
        by (simp add: process_query_def)
    next
      case (Some A')
      with True agent[of A'] show ?thesis
        by (simp add: process_query_def)
    qed
  qed
  have fault: "fst (agent_process_query C B A q h) ''response'' = Some PyNone
        \<and> fst (agent_process_query C B A q h) ''error'' = Some (PyStr (workflow_recursion_error A))"
    if "\<forall>n\<le>workflow_recursion_limit A. fst (run_steps C B A n (Retrieve, AgentState q, h)) \<noteq> END"
    using run_workflow_gives_up[OF that]
    by (simp add: agent_process_query_def workflow_invoke_def fault_result_def)
  have completed: "fst (agent_process_query C B A q h) =
          completed_result A q (fst (snd (run_steps C B A n (Retrieve, AgentState q, h))))"
    if "n \<le> workflow_recursion_limit A" "fst (run_steps C B A n (Retrieve, AgentState q, h)) = END" for n
    using run_workflow_reaches[OF that(2) that(1)]
    by (simp add: agent_process_query_def workflow_invoke_def)
  have empty: "(case run_steps C B A 3 (Retrieve, AgentState q, h) of
           (nd, s, h') \<Rightarrow>
             nd = Evaluate \<and> error s = ''No context available for response generation''
             \<and> response s = [])"
    if "fst (similarity_search B (agent_vector_store A) q h) = Inr []"
    using empty_retrieval_three_nodes[OF that, of C] by auto
  from agent[of A] system fault completed empty show ?thesis
    by blast
qed

theorem process_query_success_flag_witness:
  "fst (similarity_search never_answers (agent_vector_store loaded_agent) ''What is aspirin?'' []) = Inr []
   \<and> (\<forall>n. fst (run_steps both_keys never_answers loaded_agent n (Retrieve, AgentState ''What is aspirin?'', [])) \<noteq> END)
   \<and> (case run_steps both_keys never_answers loaded_agent 3 (Retrieve, AgentState ''What is aspirin?'', []) of
         (nd, s, h') \<Rightarrow>
           nd = Evaluate \<and> error s = ''No context available for response generation'' \<and> response s = [])
   \<and> fst (agent_process_query both_keys never_answers loaded_agent ''What is aspirin?'' []) ''success''
        = Some (PyBool False)
   \<and> fst (agent_process_query both_keys never_answers loaded_agent ''What is aspirin?'' []) ''response''
        = Some PyNone
   \<and> fst (run_steps both_keys praising loaded_agent 6 (Retrieve, AgentState ''What is aspirin?'', [])) = END
   \<and> fst (agent_process_query both_keys praising loaded_agent ''What is aspirin?'' []) ''success''
        = Some (PyBool True)"
proof -
  have zero: "fst (similarity_search never_answers (agent_vector_store loaded_agent) ''What is aspirin?'' []) = Inr []"
    by (simp add: similarity_search_def loaded_agent_simps never_answers_def)
  have never: "\<forall>n. fst (run_steps both_keys never_answers loaded_agent n
      (Retrieve, AgentState ''What is aspirin?'', [])) \<noteq> END"
    using never_answered_run[OF never_answers_fails both_keys_threshold] by blast
  then have never': "\<forall>n\<le>workflow_recursion_limit loaded_agent. fst (run_steps both_keys never_answers loaded_agent n
      (Retrieve, AgentState ''What is aspirin?'', [])) \<noteq> END"
    by blast
  note t = process_query_success_flag[of both_keys never_answers ready_manager "''What is aspirin?''" "[]" loaded_agent]
  from t[THEN conjunct2, THEN conjunct1] never
  have a: "fst (agent_process_query both_keys never_answers loaded_agent ''What is aspirin?'' []) ''success''
        = Some (PyBool False)"
    by simp
  from t[THEN conjunct2, THEN conjunct2, THEN conjunct1, THEN mp, OF never']
  have b: "fst (agent_process_query both_keys never_answers loaded_agent ''What is aspirin?'' []) ''response''
        = Some PyNone"
    by simp
  from t[THEN conjunct2, THEN conjunct2, THEN conjunct2, THEN conjunct2, THEN mp, OF zero]
  have c: "(case run_steps both_keys never_answers loaded_agent 3 (Retrieve, AgentState ''What is aspirin?'', []) of
         (nd, s, h') \<Rightarrow>
           nd = Evaluate \<and> error s = ''No context available for response generation'' \<and> response s = [])" .
  have six: "fst (run_steps both_keys praising loaded_agent 6 (Retrieve, AgentState ''What is aspirin?'', [])) = END"
    using run6_praising
    by (cases "run_steps both_keys praising loaded_agent 6 (Retrieve, AgentState ''What is aspirin?'', [])") simp
  note p = process_query_success_flag[of both_keys praising ready_manager "''What is aspirin?''" "[]" loaded_agent]
  have "\<exists>n\<le>workflow_recursion_limit loaded_agent.
      fst (run_steps both_keys praising loaded_agent n (Retrieve, AgentState ''What is aspirin?'', [])) = END"
    using six by (intro exI[of _ 6]) (simp add: loaded_agent_simps)
  with p[THEN conjunct2, THEN conjunct1]
  have d: "fst (agent_process_query both_keys praising loaded_agent ''What is aspirin?'' []) ''success''
        = Some (PyBool True)"
    by simp
  from zero never c a b six d show ?thesis
    by blast
qed

end
